theory Spec2Isabelle
  imports Complex_Main "HOL-Library.Sublist" "HOL-Library.Multiset"
begin

section \<open>Strings and numbers of the source language\<close>

text \<open>
  A TypeScript string is a sequence of UTF-16 code units; a code unit is modelled as a
  natural number. \<open>js\<close> turns an ASCII literal of the source into such a sequence.
\<close>

type_synonym jsstring = "nat list"

definition js :: "string \<Rightarrow> jsstring" where
  "js s = map of_char s"

text \<open>
  \<open>String.prototype.toLowerCase\<close> belongs to the language runtime: it applies the Unicode
  lower-case mapping, whose tables are not part of the repository, and it is not a map
  over code units (a capital sigma depends on its context, and some characters lengthen).
  Every function of the source that lower-cases takes it as the parameter
  \<open>toLowerCase\<close>. What is known of it is \<open>unicodeLowerCase\<close>: on a string whose code units
  all lie in Basic Latin, the Latin-1 Supplement or General Punctuation (U+2000 to
  U+206F) it maps code unit by code unit, sending A-Z and U+00C0 to U+00DE (without the
  multiplication sign U+00D7) 32 places up and leaving every other code unit of these
  blocks alone. \<open>toLowerCase_latin1\<close> is the function that does this to every string; it
  is the runtime's function on the strings of these blocks and serves as the instance
  the examples are evaluated with.
\<close>

definition toLowerCase_unit :: "nat \<Rightarrow> nat" where
  "toLowerCase_unit c =
     (if (65 \<le> c \<and> c \<le> 90) \<or> (192 \<le> c \<and> c \<le> 222 \<and> c \<noteq> 215) then c + 32 else c)"

definition caseTabled :: "nat \<Rightarrow> bool" where
  "caseTabled c = (c < 256 \<or> (8192 \<le> c \<and> c \<le> 8303))"

definition unicodeLowerCase :: "(jsstring \<Rightarrow> jsstring) \<Rightarrow> bool" where
  "unicodeLowerCase toLowerCase =
     (\<forall>s. list_all caseTabled s \<longrightarrow> toLowerCase s = map toLowerCase_unit s)"

definition toLowerCase_latin1 :: "jsstring \<Rightarrow> jsstring" where
  "toLowerCase_latin1 s = map toLowerCase_unit s"

text \<open>\<open>s.includes(p)\<close>: \<open>p\<close> occurs in \<open>s\<close> as a contiguous run of code units.\<close>

fun js_includes :: "jsstring \<Rightarrow> jsstring \<Rightarrow> bool" where
  "js_includes [] p = (p = [])"
| "js_includes (c # cs) p = (prefix p (c # cs) \<or> js_includes cs p)"

text \<open>\<open>String.prototype.trim\<close> removes WhiteSpace and LineTerminator code units at both ends.\<close>

definition isWhiteSpace :: "nat \<Rightarrow> bool" where
  "isWhiteSpace c =
     (c \<in> {9, 10, 11, 12, 13, 32, 160, 5760, 8232, 8233, 8239, 8287, 12288, 65279}
      \<or> (8192 \<le> c \<and> c \<le> 8202))"

definition trim :: "jsstring \<Rightarrow> jsstring" where
  "trim s = rev (dropWhile isWhiteSpace (rev (dropWhile isWhiteSpace s)))"

definition isDigit :: "nat \<Rightarrow> bool" where
  "isDigit c = (48 \<le> c \<and> c \<le> 57)"

text \<open>\<open>str.replace(/[^\d.]/g, '')\<close>: only the digits and the dots of \<open>str\<close> remain.\<close>

definition stripNonNumeric :: "jsstring \<Rightarrow> jsstring" where
  "stripNonNumeric s = filter (\<lambda>c. isDigit c \<or> c = 46) s"

definition decimalValue :: "jsstring \<Rightarrow> nat" where
  "decimalValue ds = foldl (\<lambda>a c. 10 * a + (c - 48)) 0 ds"

text \<open>
  \<open>parseFloat\<close> on the strings the source gives it, which are results of
  \<open>stripNonNumeric\<close> and hold digits and dots only: the longest prefix of the form
  digits, digits-dot-digits or dot-digits is read, and \<open>None\<close> stands for NaN. A sign, an
  exponent or leading white space cannot occur in such a string and is not read here.
  A Number is kept as the exact decimal value (a rational); the rounding and the overflow
  of IEEE doubles are outside the model.
\<close>

definition parseFloat :: "jsstring \<Rightarrow> rat option" where
  "parseFloat s =
     (let ip = takeWhile isDigit s; rest = dropWhile isDigit s
      in case rest of
           c # r \<Rightarrow>
             (if c = 46
              then (let fp = takeWhile isDigit r
                    in if ip = [] \<and> fp = [] then None
                       else Some (of_nat (decimalValue ip)
                                  + of_nat (decimalValue fp) / 10 ^ length fp))
              else if ip = [] then None else Some (of_nat (decimalValue ip)))
         | [] \<Rightarrow> if ip = [] then None else Some (of_nat (decimalValue ip)))"

text \<open>\<open>x || d\<close> on a Number: NaN and 0 are falsy.\<close>

definition number_or :: "rat option \<Rightarrow> rat \<Rightarrow> rat" where
  "number_or x d = (case x of None \<Rightarrow> d | Some v \<Rightarrow> if v = 0 then d else v)"


text \<open>
  The Numbers \<open>parseInt\<close> returns other than NaN: an integer, or an infinity when the
  digits read exceed the range of a double.
\<close>

datatype integral = Finite int | PlusInfinity | MinusInfinity


text \<open>\<open>x || d\<close> on such a Number: NaN (\<open>None\<close>) and zero are falsy.\<close>

definition int_or :: "integral option \<Rightarrow> integral \<Rightarrow> integral" where
  "int_or x d = (case x of None \<Rightarrow> d | Some v \<Rightarrow> if v = Finite 0 then d else v)"

text \<open>
  The double nearest to a natural number, ties to the even significand: exact below
  \<open>2 ^ 53\<close>, a multiple of a power of two with a 53-bit significand above, and \<open>None\<close>
  (an infinity) from \<open>2 ^ 1024 - 2 ^ 970\<close> on.
\<close>

fun bitLength :: "nat \<Rightarrow> nat" where
  "bitLength n = (if n = 0 then 0 else Suc (bitLength (n div 2)))"

declare bitLength.simps [simp del]

definition roundToDouble :: "nat \<Rightarrow> nat option" where
  "roundToDouble n =
     (if n < 2 ^ 53 then Some n
      else (let e = bitLength n - 53;
                q = n div 2 ^ e;
                r = n mod 2 ^ e;
                h = 2 ^ (e - 1);
                q' = (if r > h \<or> (r = h \<and> odd q) then q + 1 else q);
                v = q' * 2 ^ e
            in if v \<ge> 2 ^ 1024 then None else Some v))"

definition integralOf :: "bool \<Rightarrow> nat \<Rightarrow> integral" where
  "integralOf negative n =
     (case roundToDouble n of
        None \<Rightarrow> if negative then MinusInfinity else PlusInfinity
      | Some v \<Rightarrow> Finite (if negative then - int v else int v))"

text \<open>
  \<open>parseInt(s)\<close> with no radix: leading white space is skipped, a sign is read, a prefix
  \<open>0x\<close> or \<open>0X\<close> selects radix 16, and the longest run of digits of the radix is read;
  with no digit the result is NaN (\<open>None\<close>). The result is the Number of the integer read,
  that is, the double nearest to it, as the engines that read every digit give it.
\<close>

definition isHexDigit :: "nat \<Rightarrow> bool" where
  "isHexDigit c = (isDigit c \<or> (65 \<le> c \<and> c \<le> 70) \<or> (97 \<le> c \<and> c \<le> 102))"

definition hexDigitValue :: "nat \<Rightarrow> nat" where
  "hexDigitValue c = (if isDigit c then c - 48 else if c \<le> 70 then c - 55 else c - 87)"

definition hexValue :: "jsstring \<Rightarrow> nat" where
  "hexValue ds = foldl (\<lambda>a c. 16 * a + hexDigitValue c) 0 ds"

definition parseMagnitude :: "jsstring \<Rightarrow> nat option" where
  "parseMagnitude s =
     (case s of
        c # x # r \<Rightarrow>
          (if c = 48 \<and> (x = 120 \<or> x = 88)
           then (let ds = takeWhile isHexDigit r
                 in if ds = [] then None else Some (hexValue ds))
           else (let ds = takeWhile isDigit s
                 in if ds = [] then None else Some (decimalValue ds)))
      | _ \<Rightarrow> (let ds = takeWhile isDigit s
              in if ds = [] then None else Some (decimalValue ds)))"

definition parseInt :: "jsstring \<Rightarrow> integral option" where
  "parseInt str =
     (let s = dropWhile isWhiteSpace str
      in case s of
           [] \<Rightarrow> None
         | c # r \<Rightarrow>
             (if c = 45 then map_option (integralOf True) (parseMagnitude r)
              else if c = 43 then map_option (integralOf False) (parseMagnitude r)
              else map_option (integralOf False) (parseMagnitude s)))"

text \<open>The decimal rendering of an index or a timestamp inside a template literal.\<close>

fun show_nat :: "nat \<Rightarrow> jsstring" where
  "show_nat n = (if n < 10 then [48 + n] else show_nat (n div 10) @ [48 + n mod 10])"

declare show_nat.simps [simp del]

section \<open>Configuration tables\<close>

definition TARGET_COMMUNITIES :: "jsstring list" where
  "TARGET_COMMUNITIES = map js [''Business Bay'', ''Motor City'', ''Barsha Heights'']"

definition commercialPatterns :: "jsstring list" where
  "commercialPatterns = map js
    [''office'', ''retail'', ''commercial'', ''shop'', ''warehouse'', ''industrial'',
     ''business'', ''clinic'', ''medical'', ''restaurant'', ''cafe'', ''hotel'',
     ''showroom'', ''mall'', ''plaza'', ''center'', ''building'', ''studio'',
     ''workspace'', ''laboratory'', ''workshop'', ''factory'', ''logistics'', ''storage'']"

definition isCommercialCategory :: "(jsstring \<Rightarrow> jsstring) \<Rightarrow> jsstring \<Rightarrow> bool" where
  "isCommercialCategory toLowerCase category =
     (let categoryLower = toLowerCase category
      in list_ex (\<lambda>pattern. js_includes categoryLower pattern) commercialPatterns)"

text \<open>
  The alias table of the commercial variants (\<open>parseXMLPropertiesOptimized\<close>), an object
  literal whose keys \<open>Object.keys\<close> lists in declaration order, and the shorter table of
  \<open>src/pages/index.tsx\<close>.
\<close>

definition communityMappings :: "(jsstring \<times> jsstring) list" where
  "communityMappings =
     [(js ''dubai investment park (dip)'', js ''Motor City''),
      (js ''dubai investment park'', js ''Motor City''),
      (js ''business bay'', js ''Business Bay''),
      (js ''motor city'', js ''Motor City''),
      (js ''barsha heights'', js ''Barsha Heights''),
      (js ''al barsha heights'', js ''Barsha Heights'')]"

definition communityMappings_index :: "(jsstring \<times> jsstring) list" where
  "communityMappings_index =
     [(js ''dubai investment park (dip)'', js ''Motor City''),
      (js ''dubai investment park'', js ''Motor City''),
      (js ''business bay'', js ''Business Bay''),
      (js ''motor city'', js ''Motor City''),
      (js ''barsha heights'', js ''Barsha Heights'')]"

text \<open>
  \<open>mappedCommunity\<close> is the first key, in the order of the table, that the lower-cased
  community contains; \<open>finalCommunity\<close> is its value when the key is truthy (a non-empty
  string), and the community as read otherwise.
\<close>

definition mappedCommunity ::
  "(jsstring \<Rightarrow> jsstring) \<Rightarrow> (jsstring \<times> jsstring) list \<Rightarrow> jsstring
     \<Rightarrow> jsstring option" where
  "mappedCommunity toLowerCase mappings community =
     (let normalizedCommunity = toLowerCase community
      in find (\<lambda>key. js_includes normalizedCommunity key) (map fst mappings))"

definition finalCommunity ::
  "(jsstring \<Rightarrow> jsstring) \<Rightarrow> (jsstring \<times> jsstring) list \<Rightarrow> jsstring \<Rightarrow> jsstring" where
  "finalCommunity toLowerCase mappings community =
     (case mappedCommunity toLowerCase mappings community of
        None \<Rightarrow> community
      | Some key \<Rightarrow>
          (if key = [] then community
           else (case map_of mappings key of Some v \<Rightarrow> v | None \<Rightarrow> community)))"

definition isTargetCommunity :: "(jsstring \<Rightarrow> jsstring) \<Rightarrow> jsstring \<Rightarrow> bool" where
  "isTargetCommunity toLowerCase fc =
     list_ex (\<lambda>targetCommunity.
        js_includes (toLowerCase fc) (toLowerCase targetCommunity)
        \<or> js_includes (toLowerCase targetCommunity) (toLowerCase fc)) TARGET_COMMUNITIES"

section \<open>The data model\<close>

datatype listing_type = Sale | Rent

datatype usage = Commercial | Residential

text \<open>
  \<open>interface Property\<close>. The interface of \<open>src/pages/index.tsx\<close> has the first eight
  fields; the commercial variants add \<open>propertyType\<close> and the optional \<open>category\<close>.
\<close>

record base_property =
  id' :: jsstring
  title :: jsstring
  price :: rat
  area :: rat
  bedrooms :: integral
  community :: jsstring
  images :: "jsstring list"
  type :: listing_type

record property = base_property +
  propertyType :: usage
  category :: "jsstring option"

text \<open>
  What the source reads from one listing element through the DOM, which belongs to the
  browser: \<open>fieldText name\<close> is the \<open>textContent\<close> of \<open>element.querySelector(name)\<close>, or
  \<open>None\<close> when no such descendant exists; \<open>imagesContainer\<close> is \<open>None\<close> when
  \<open>element.querySelector('Images')\<close> is null, and otherwise holds the \<open>textContent\<close> of the
  elements that \<open>querySelectorAll('Image ImageURL, Image > ImageURL')\<close> finds in it, in
  document order; \<open>directImages\<close> holds the \<open>textContent\<close> of the elements of
  \<open>element.querySelectorAll('Image, PropertyImage, ImageURL, Photo')\<close>.
\<close>

record element =
  fieldText :: "string \<Rightarrow> jsstring option"
  imagesContainer :: "jsstring list option"
  directImages :: "jsstring list"

text \<open>
  The document \<open>DOMParser.parseFromString\<close> returns: \<open>parsererror\<close> is the text of
  \<open>xmlDoc.querySelector('parsererror')\<close> when there is one, \<open>propertyElements\<close> the result of
  \<open>xmlDoc.querySelectorAll('UnitDTO, Property, property, PropertyInfo')\<close>.
\<close>

record xml_document =
  parsererror :: "jsstring option"
  propertyElements :: "element list"

text \<open>An exception thrown inside a \<open>try\<close> block.\<close>

datatype js_error = Thrown

fun getFieldValue :: "element \<Rightarrow> string list \<Rightarrow> jsstring" where
  "getFieldValue element [] = []"
| "getFieldValue element (fieldName # fieldNames) =
     (case fieldText element fieldName of
        None \<Rightarrow> getFieldValue element fieldNames
      | Some textContent \<Rightarrow>
          (if trim textContent \<noteq> [] then trim textContent
           else getFieldValue element fieldNames))"

text \<open>
  The three fallback images are imports of the asset \<open>@/assets/react.svg\<close>; the bundler
  decides the URL they stand for, and the module specifier is kept in its place.
\<close>

definition heroProperty1 :: jsstring where
  "heroProperty1 = js ''@/assets/react.svg''"

definition heroProperty2 :: jsstring where
  "heroProperty2 = js ''@/assets/react.svg''"

definition heroProperty3 :: jsstring where
  "heroProperty3 = js ''@/assets/react.svg''"

definition fallbackImages :: "jsstring list" where
  "fallbackImages = [heroProperty1, heroProperty2, heroProperty3]"

definition type_name :: "listing_type \<Rightarrow> jsstring" where
  "type_name ty = (case ty of Sale \<Rightarrow> js ''sale'' | Rent \<Rightarrow> js ''rent'')"

definition categoryOf :: "element \<Rightarrow> jsstring" where
  "categoryOf element =
     getFieldValue element
       [''Category'', ''PropertyCategory'', ''PropertyType'', ''UnitCategory'', ''Type'']"

definition communityOf :: "element \<Rightarrow> jsstring" where
  "communityOf element =
     getFieldValue element [''Community'', ''CommunityName'', ''Location'', ''Area'']"

definition titleOf :: "nat \<Rightarrow> element \<Rightarrow> jsstring" where
  "titleOf i element =
     (let t = getFieldValue element [''PropertyName'', ''PropertyTitle'', ''Title'', ''Name'']
      in if t \<noteq> [] then t else js ''Property '' @ show_nat (i + 1))"

definition priceStrOf :: "listing_type \<Rightarrow> element \<Rightarrow> jsstring" where
  "priceStrOf ty element =
     (case ty of
        Sale \<Rightarrow> getFieldValue element [''SellPrice'', ''Price'', ''PropertyPrice'', ''SalePrice'']
      | Rent \<Rightarrow> getFieldValue element [''Rent'', ''RentPrice'', ''Price'', ''PropertyPrice''])"

definition areaStrOf :: "element \<Rightarrow> jsstring" where
  "areaStrOf element =
     getFieldValue element
       [''BuiltupArea'', ''FloorArea'', ''Area'', ''PropertyArea'', ''TotalArea'']"

definition bedroomsStrOf :: "element \<Rightarrow> jsstring" where
  "bedroomsStrOf element =
     getFieldValue element [''Bedrooms'', ''BedroomCount'', ''NumberOfBedrooms'']"

text \<open>\<open>Array.from(imageElements).map(img => img.textContent?.trim()).filter(Boolean)\<close>\<close>

definition imageTexts :: "jsstring list \<Rightarrow> jsstring list" where
  "imageTexts texts = filter (\<lambda>s. s \<noteq> []) (map trim texts)"

section \<open>The normalizer of the commercial variants\<close>

text \<open>
  The images a listing element yields in \<open>parseXMLPropertiesOptimized\<close>: only the
  \<open>Images\<close> container is searched.
\<close>

definition extractedImages :: "element \<Rightarrow> jsstring list" where
  "extractedImages element =
     (case imagesContainer element of None \<Rightarrow> [] | Some texts \<Rightarrow> imageTexts texts)"

definition finalImages :: "element \<Rightarrow> jsstring list" where
  "finalImages element =
     (let images = extractedImages element
      in if length images > 0 then take 5 images else fallbackImages)"

text \<open>
  The body of the loop of \<open>processChunk\<close> for the element at index \<open>i\<close>: \<open>None\<close> is a
  \<open>continue\<close> or a failed price test, \<open>Some p\<close> the Property pushed. \<open>now i\<close> is what
  \<open>Date.now()\<close> returns while that element is processed.
\<close>

definition processElement ::
  "(jsstring \<Rightarrow> jsstring) \<Rightarrow> (nat \<Rightarrow> nat) \<Rightarrow> listing_type \<Rightarrow> nat \<Rightarrow> element \<Rightarrow> property option" where
  "processElement toLowerCase now ty i element =
     (let category = categoryOf element
      in if category = [] \<or> \<not> isCommercialCategory toLowerCase category then None
         else
          (let community = communityOf element;
               fc = finalCommunity toLowerCase communityMappings community
           in if \<not> isTargetCommunity toLowerCase fc then None
              else
               (let title = titleOf i element;
                    priceStr = priceStrOf ty element;
                    areaStr = areaStrOf element;
                    bedroomsStr = bedroomsStrOf element;
                    price = number_or (parseFloat (stripNonNumeric priceStr)) 0;
                    area = number_or (parseFloat (stripNonNumeric areaStr)) 800;
                    bedrooms = int_or (parseInt bedroomsStr) (Finite 0)
                in if price > 0
                   then Some \<lparr> id' = type_name ty @ js ''-'' @ show_nat (now i) @ js ''-'' @ show_nat i,
                               title = title, price = price, area = area, bedrooms = bedrooms,
                               community = fc, images = finalImages element, type = ty,
                               propertyType = Commercial, category = Some category \<rparr>
                   else None)))"

text \<open>
  \<open>processChunk(elements, startIndex, chunkSize)\<close>: the \<open>for\<close> loop from \<open>startIndex\<close> to
  \<open>endIndex\<close>, with the array \<open>properties\<close> it pushes to passed through.
\<close>

function processChunk_loop ::
  "(jsstring \<Rightarrow> jsstring) \<Rightarrow> (nat \<Rightarrow> nat) \<Rightarrow> listing_type \<Rightarrow> element list \<Rightarrow> nat \<Rightarrow> nat \<Rightarrow> property list \<Rightarrow> property list" where
  "processChunk_loop toLowerCase now ty elements i endIndex properties =
     (if i < endIndex
      then processChunk_loop toLowerCase now ty elements (i + 1) endIndex
             (case processElement toLowerCase now ty i (elements ! i) of
                None \<Rightarrow> properties
              | Some p \<Rightarrow> properties @ [p])
      else properties)"
  by pat_completeness auto
termination
  by (relation
      "measure (\<lambda>(toLowerCase, now, ty, elements, i, endIndex, properties). endIndex - i)")
    auto

declare processChunk_loop.simps [simp del]

definition processChunk ::
  "(jsstring \<Rightarrow> jsstring) \<Rightarrow> (nat \<Rightarrow> nat) \<Rightarrow> listing_type \<Rightarrow> element list \<Rightarrow> nat \<Rightarrow> nat \<Rightarrow> property list \<Rightarrow> property list" where
  "processChunk toLowerCase now ty elements startIndex chunkSize properties =
     (let endIndex = min (startIndex + chunkSize) (length elements)
      in processChunk_loop toLowerCase now ty elements startIndex endIndex properties)"

text \<open>
  The loop over the chunks: \<open>for (let i = 0; i < Math.min(elements.length, 300); i += chunkSize)\<close>
  with \<open>chunkSize = 50\<close>. The pauses between chunks (\<open>setTimeout\<close>) hand control to the event
  loop and leave \<open>properties\<close> alone.
\<close>

function chunks_loop ::
  "(jsstring \<Rightarrow> jsstring) \<Rightarrow> (nat \<Rightarrow> nat) \<Rightarrow> listing_type \<Rightarrow> element list \<Rightarrow> nat \<Rightarrow> property list \<Rightarrow> property list" where
  "chunks_loop toLowerCase now ty elements i properties =
     (if i < min (length elements) 300
      then chunks_loop toLowerCase now ty elements (i + 50)
             (processChunk toLowerCase now ty elements i 50 properties)
      else properties)"
  by pat_completeness auto
termination
  by (relation "measure (\<lambda>(toLowerCase, now, ty, elements, i, properties). 300 - i)") auto

declare chunks_loop.simps [simp del]

text \<open>
  \<open>parseXMLPropertiesOptimized\<close>. The parser is the browser's and is a parameter:
  \<open>parseFromString xmlString\<close> is the document, or \<open>Inl Thrown\<close> when the call throws, which
  the outer \<open>catch\<close> turns into the empty array.
\<close>

definition parseXMLPropertiesOptimized ::
  "(jsstring \<Rightarrow> jsstring) \<Rightarrow> (jsstring \<Rightarrow> js_error + xml_document) \<Rightarrow> (nat \<Rightarrow> nat) \<Rightarrow> jsstring \<Rightarrow> listing_type
     \<Rightarrow> property list" where
  "parseXMLPropertiesOptimized toLowerCase parseFromString now xmlString ty =
     (case parseFromString xmlString of
        Inl err \<Rightarrow> []
      | Inr xmlDoc \<Rightarrow>
          (if parsererror xmlDoc \<noteq> None then []
           else chunks_loop toLowerCase now ty (propertyElements xmlDoc) 0 []))"

section \<open>The normalizer of \<open>src/pages/index.tsx\<close>\<close>

definition extractedImages_index :: "element \<Rightarrow> jsstring list" where
  "extractedImages_index element =
     (case imagesContainer element of
        None \<Rightarrow> imageTexts (directImages element)
      | Some texts \<Rightarrow> imageTexts texts)"

definition finalImages_index :: "element \<Rightarrow> jsstring list" where
  "finalImages_index element =
     (let images = extractedImages_index element
      in if length images > 0 then images else fallbackImages)"

text \<open>
  The callback of \<open>propertyElements.forEach\<close> in \<open>parseXMLProperties\<close>: no category test,
  the shorter alias table, a bedrooms default of 1 applied twice, no cap on the images.
\<close>

definition parseElement_index ::
  "(jsstring \<Rightarrow> jsstring) \<Rightarrow> listing_type \<Rightarrow> nat \<Rightarrow> element
     \<Rightarrow> base_property option" where
  "parseElement_index toLowerCase ty index element =
     (let title = titleOf index element;
          priceStr = priceStrOf ty element;
          areaStr = areaStrOf element;
          community = communityOf element;
          bedroomsStr = bedroomsStrOf element;
          price = number_or (parseFloat (stripNonNumeric priceStr)) 0;
          area = number_or (parseFloat (stripNonNumeric areaStr)) 800;
          bedrooms = int_or (parseInt bedroomsStr) (Finite 1);
          fc = finalCommunity toLowerCase communityMappings_index community
      in if isTargetCommunity toLowerCase fc \<and> price > 0
         then Some \<lparr> id' = type_name ty @ js ''-'' @ show_nat index,
                     title = title, price = price, area = area,
                     bedrooms = (if bedrooms = Finite 0 then Finite 1 else bedrooms),
                     community = fc, images = finalImages_index element, type = ty \<rparr>
         else None)"

definition parseXMLProperties ::
  "(jsstring \<Rightarrow> jsstring) \<Rightarrow> (jsstring \<Rightarrow> js_error + xml_document) \<Rightarrow> jsstring \<Rightarrow> listing_type \<Rightarrow> base_property list" where
  "parseXMLProperties toLowerCase parseFromString xmlString ty =
     (case parseFromString xmlString of
        Inl err \<Rightarrow> []
      | Inr xmlDoc \<Rightarrow>
          (if parsererror xmlDoc \<noteq> None then []
           else List.map_filter
                  (\<lambda>(index, element). parseElement_index toLowerCase ty index element)
                  (enumerate 0 (propertyElements xmlDoc))))"

section \<open>The Filter Engine and the Grouper\<close>

text \<open>
  The component state the filter reads. A range is the two-element array of \<open>useState\<close>;
  a bound is \<open>None\<close> when it is NaN, which \<open>parseInt\<close> of an emptied input field gives.
\<close>

record app_state =
  salesProperties :: "property list"
  rentProperties :: "property list"
  searchTerm :: jsstring
  priceRange :: "rat option \<times> rat option"
  areaRange :: "rat option \<times> rat option"
  selectedPropertyType :: jsstring
  activeTab :: listing_type

definition initialState :: app_state where
  "initialState =
     \<lparr> salesProperties = [], rentProperties = [], searchTerm = [],
       priceRange = (Some 0, Some 5000000), areaRange = (Some 0, Some 2000),
       selectedPropertyType = js ''any'', activeTab = Sale \<rparr>"

definition clearFilters :: "app_state \<Rightarrow> app_state" where
  "clearFilters st =
     st\<lparr> searchTerm := [], priceRange := (Some 0, Some 5000000),
         areaRange := (Some 0, Some 2000), selectedPropertyType := js ''any'' \<rparr>"

text \<open>\<open>a < b\<close> and \<open>a > b\<close> for a Number \<open>a\<close> and a bound \<open>b\<close>: false when \<open>b\<close> is NaN.\<close>

definition num_lt :: "rat \<Rightarrow> rat option \<Rightarrow> bool" where
  "num_lt a b = (case b of None \<Rightarrow> False | Some v \<Rightarrow> a < v)"

definition num_gt :: "rat \<Rightarrow> rat option \<Rightarrow> bool" where
  "num_gt a b = (case b of None \<Rightarrow> False | Some v \<Rightarrow> a > v)"

definition currentProperties :: "app_state \<Rightarrow> property list" where
  "currentProperties st =
     (if activeTab st = Sale then salesProperties st else rentProperties st)"

text \<open>The callback of \<open>currentProperties.filter\<close> in \<open>filteredProperties\<close>.\<close>

definition passesFilters :: "(jsstring \<Rightarrow> jsstring) \<Rightarrow> app_state \<Rightarrow> property \<Rightarrow> bool" where
  "passesFilters toLowerCase st p =
     (if propertyType p \<noteq> Commercial then False
      else if searchTerm st \<noteq> []
              \<and> \<not> js_includes (toLowerCase (title p)) (toLowerCase (searchTerm st))
              \<and> \<not> js_includes (toLowerCase (community p)) (toLowerCase (searchTerm st))
              \<and> \<not> (case category p of
                      None \<Rightarrow> False
                    | Some c \<Rightarrow> c \<noteq> [] \<and> js_includes (toLowerCase c) (toLowerCase (searchTerm st)))
           then False
      else if num_lt (price p) (fst (priceRange st)) \<or> num_gt (price p) (snd (priceRange st))
           then False
      else if num_lt (area p) (fst (areaRange st)) \<or> num_gt (area p) (snd (areaRange st))
           then False
      else if selectedPropertyType st \<noteq> [] \<and> selectedPropertyType st \<noteq> js ''any''
              \<and> (case category p of
                    None \<Rightarrow> False
                  | Some c \<Rightarrow> c \<noteq> [] \<and> \<not> js_includes (toLowerCase c) (selectedPropertyType st))
           then False
      else True)"

definition filteredProperties :: "(jsstring \<Rightarrow> jsstring) \<Rightarrow> app_state \<Rightarrow> property list" where
  "filteredProperties toLowerCase st =
     filter (passesFilters toLowerCase st) (currentProperties st)"

text \<open>
  \<open>propertiesByCommunity\<close>: the object \<open>grouped\<close>, as the list of its entries in insertion
  order. It is the same in every variant and reads only the field \<open>community\<close>.
\<close>

definition propertiesByCommunity ::
  "'a base_property_scheme list \<Rightarrow> (jsstring \<times> 'a base_property_scheme list) list" where
  "propertiesByCommunity filtered =
     map (\<lambda>c. (c, filter (\<lambda>p. community p = c) filtered)) TARGET_COMMUNITIES"

section \<open>Example inputs\<close>

definition officeWithoutCommunity :: element where
  "officeWithoutCommunity =
     \<lparr> fieldText = map_of [(''Category'', js ''Office''), (''SellPrice'', js ''750000'')],
       imagesContainer = None, directImages = [] \<rparr>"

definition retailShop :: element where
  "retailShop =
     \<lparr> fieldText = map_of [(''Category'', js ''Retail Shop''),
                            (''Community'', js ''Al Barsha Heights''),
                            (''SellPrice'', js ''500,000''),
                            (''BuiltupArea'', js ''900 sqft'')],
       imagesContainer = None, directImages = [] \<rparr>"

definition uncategorized :: property where
  "uncategorized =
     \<lparr> id' = js ''sale-0'', title = js ''Unit 7'', price = 750000, area = 900, bedrooms = Finite 0,
       community = js ''Business Bay'', images = fallbackImages, type = Sale,
       propertyType = Commercial, category = None \<rparr>"


definition largeOffice :: property where
  "largeOffice =
     \<lparr> id' = js ''sale-1'', title = js ''Tower Floor'', price = 6000000, area = 1500,
       bedrooms = Finite 0, community = js ''Business Bay'', images = fallbackImages, type = Sale,
       propertyType = Commercial, category = Some (js ''Office'') \<rparr>"

definition largeOfficeState :: app_state where
  "largeOfficeState = initialState\<lparr> salesProperties := [largeOffice] \<rparr>"

definition naPrice :: element where
  "naPrice =
     \<lparr> fieldText = map_of [(''Category'', js ''Office''), (''Community'', js ''Business Bay''),
                            (''SellPrice'', js ''N/A'')],
       imagesContainer = None, directImages = [] \<rparr>"


definition galleryShop :: element where
  "galleryShop =
     \<lparr> fieldText = map_of [(''Category'', js ''Shop''), (''Community'', js ''Motor City''),
                            (''Rent'', js ''90000'')],
       imagesContainer = Some [js '' a.jpg '', js ''b.jpg'', js ''  '', js ''c.jpg'', js ''d.jpg'',
                               js ''e.jpg'', js ''f.jpg''],
       directImages = [js ''z.jpg''] \<rparr>"

text \<open>A parser that reads the given listing elements out of any feed text.\<close>

definition feedOf :: "element list \<Rightarrow> jsstring \<Rightarrow> js_error + xml_document" where
  "feedOf elements = (\<lambda>xmlString. Inr \<lparr> parsererror = None, propertyElements = elements \<rparr>)"

definition retailShopProperty :: property where
  "retailShopProperty =
     \<lparr> id' = js ''sale-0-0'', title = js ''Property 1'', price = 500000, area = 900,
       bedrooms = Finite 0, community = js ''Barsha Heights'', images = fallbackImages, type = Sale,
       propertyType = Commercial, category = Some (js ''Retail Shop'') \<rparr>"


definition galleryShopProperty :: property where
  "galleryShopProperty =
     \<lparr> id' = js ''rent-1700000000000-12'', title = js ''Property 13'', price = 90000,
       area = 800, bedrooms = Finite 0, community = js ''Motor City'',
       images = [js ''a.jpg'', js ''b.jpg'', js ''c.jpg'', js ''d.jpg'', js ''e.jpg''],
       type = Rent, propertyType = Commercial, category = Some (js ''Shop'') \<rparr>"

definition communityLess :: property where
  "communityLess =
     \<lparr> id' = js ''sale-0-0'', title = js ''Property 1'', price = 750000, area = 800,
       bedrooms = Finite 0, community = [], images = fallbackImages, type = Sale,
       propertyType = Commercial, category = Some (js ''Office'') \<rparr>"

definition communityLess_index :: base_property where
  "communityLess_index =
     \<lparr> id' = js ''sale-0'', title = js ''Property 1'', price = 750000, area = 800,
       bedrooms = Finite 1, community = [], images = fallbackImages, type = Sale \<rparr>"



section \<open>Basic facts\<close>

lemma js_includes_sublist: "js_includes s p \<longleftrightarrow> sublist p s"
  by (induction s) (auto simp: sublist_Cons_right)

lemmas string_defs = js_def toLowerCase_latin1_def toLowerCase_unit_def

lemma unicodeLowerCase_latin1: "unicodeLowerCase toLowerCase_latin1"
  by (simp add: unicodeLowerCase_def toLowerCase_latin1_def)

lemma unicodeLowerCase_apply:
  "unicodeLowerCase toLowerCase \<Longrightarrow> list_all caseTabled s
     \<Longrightarrow> toLowerCase s = map toLowerCase_unit s"
  by (simp add: unicodeLowerCase_def)

lemma passesFilters_price:
  "passesFilters toLowerCase st p \<Longrightarrow>
     \<not> num_lt (price p) (fst (priceRange st)) \<and> \<not> num_gt (price p) (snd (priceRange st))"
  by (auto simp: passesFilters_def split: if_splits)

lemma passesFilters_area:
  "passesFilters toLowerCase st p \<Longrightarrow>
     \<not> num_lt (area p) (fst (areaRange st)) \<and> \<not> num_gt (area p) (snd (areaRange st))"
  by (auto simp: passesFilters_def split: if_splits)

section \<open>The commercial classifier\<close>



section \<open>Malformed documents\<close>

text \<open>
  C9. When the parser reports an error (the document holds a \<open>parsererror\<close> element), and
  also when the parser throws, both extractors return the empty sequence.
\<close>

theorem parse_error_gives_empty:
  assumes "case parseFromString xmlString of
             Inl err \<Rightarrow> True
           | Inr xmlDoc \<Rightarrow> parsererror xmlDoc \<noteq> None"
  shows "parseXMLPropertiesOptimized toLowerCase parseFromString now xmlString ty = []
       \<and> parseXMLProperties toLowerCase parseFromString xmlString ty = []"
  using assms
  by (auto simp: parseXMLPropertiesOptimized_def parseXMLProperties_def split: sum.splits)

theorem parse_error_gives_empty_witness:
  "parseXMLPropertiesOptimized toLowerCase_latin1
     (\<lambda>text. Inr \<lparr> parsererror = Some (js ''unclosed tag''), propertyElements = [retailShop] \<rparr>)
     (\<lambda>i. 0) (js ''<UnitDTO>'') Sale = []
   \<and> parseXMLProperties toLowerCase_latin1
     (\<lambda>text. Inr \<lparr> parsererror = Some (js ''unclosed tag''), propertyElements = [retailShop] \<rparr>)
     (js ''<UnitDTO>'') Sale = []"
  by (rule parse_error_gives_empty) simp

section \<open>The property-type filter and the range bounds\<close>




text \<open>
  C10. \<open>clearFilters\<close> resets the ranges to exactly [0, 5000000] and [0, 2000], which are
  also the initial ranges; with the filters cleared, a Property whose price exceeds
  5,000,000 or whose area exceeds 2,000 is not in the filtered collection; and whatever
  the state, a Property in the filtered collection lies within both ranges.
\<close>

theorem cleared_filters_enforce_bounds:
  "priceRange (clearFilters st) = (Some 0, Some 5000000)
   \<and> areaRange (clearFilters st) = (Some 0, Some 2000)
   \<and> priceRange initialState = (Some 0, Some 5000000)
   \<and> areaRange initialState = (Some 0, Some 2000)
   \<and> (price p > 5000000 \<or> area p > 2000 \<longrightarrow> p \<notin> set (filteredProperties toLowerCase (clearFilters st)))
   \<and> (\<forall>lo hi. priceRange st = (Some lo, Some hi) \<and> p \<in> set (filteredProperties toLowerCase st)
        \<longrightarrow> lo \<le> price p \<and> price p \<le> hi)
   \<and> (\<forall>lo hi. areaRange st = (Some lo, Some hi) \<and> p \<in> set (filteredProperties toLowerCase st)
        \<longrightarrow> lo \<le> area p \<and> area p \<le> hi)"
proof -
  have r: "priceRange (clearFilters st) = (Some 0, Some 5000000)"
    "areaRange (clearFilters st) = (Some 0, Some 2000)"
    by (simp_all add: clearFilters_def)
  have i: "priceRange initialState = (Some 0, Some 5000000)"
    "areaRange initialState = (Some 0, Some 2000)"
    by (simp_all add: initialState_def)
  have a: "price p > 5000000 \<or> area p > 2000
             \<longrightarrow> p \<notin> set (filteredProperties toLowerCase (clearFilters st))"
  proof (intro impI notI)
    assume big: "price p > 5000000 \<or> area p > 2000"
      and "p \<in> set (filteredProperties toLowerCase (clearFilters st))"
    then have pf: "passesFilters toLowerCase (clearFilters st) p"
      by (simp add: filteredProperties_def)
    from passesFilters_price [OF pf] passesFilters_area [OF pf] big show False
      by (auto simp: r num_gt_def)
  qed
  have b: "\<forall>lo hi. priceRange st = (Some lo, Some hi) \<and> p \<in> set (filteredProperties toLowerCase st)
             \<longrightarrow> lo \<le> price p \<and> price p \<le> hi"
    using passesFilters_price [of toLowerCase st p]
    by (auto simp: filteredProperties_def num_lt_def num_gt_def)
  have c: "\<forall>lo hi. areaRange st = (Some lo, Some hi) \<and> p \<in> set (filteredProperties toLowerCase st)
             \<longrightarrow> lo \<le> area p \<and> area p \<le> hi"
    using passesFilters_area [of toLowerCase st p]
    by (auto simp: filteredProperties_def num_lt_def num_gt_def)
  from r i a b c show ?thesis by blast
qed

theorem cleared_filters_enforce_bounds_witness:
  "price largeOffice > 5000000
   \<and> largeOffice \<in> set (currentProperties (clearFilters largeOfficeState))
   \<and> largeOffice \<notin> set (filteredProperties toLowerCase_latin1 (clearFilters largeOfficeState))"
proof -
  have "price largeOffice > 5000000"
    by (simp add: largeOffice_def)
  moreover have "largeOffice \<in> set (currentProperties (clearFilters largeOfficeState))"
    by (simp add: largeOfficeState_def initialState_def clearFilters_def currentProperties_def)
  ultimately show ?thesis
    using cleared_filters_enforce_bounds
      [where st = largeOfficeState and p = largeOffice and toLowerCase = toLowerCase_latin1]
    by blast
qed

section \<open>Community canonicalization\<close>


lemma mappedCommunity_Some:
  "mappedCommunity toLowerCase tbl raw = Some key \<longleftrightarrow>
     (\<exists>i<length tbl. sublist (fst (tbl ! i)) (toLowerCase raw) \<and> key = fst (tbl ! i)
         \<and> (\<forall>j<i. \<not> sublist (fst (tbl ! j)) (toLowerCase raw)))"
  by (auto simp: mappedCommunity_def find_Some_iff js_includes_sublist)

lemma mappedCommunity_None:
  "mappedCommunity toLowerCase tbl raw = None \<longleftrightarrow> (\<forall>key \<in> set (map fst tbl). \<not> sublist key (toLowerCase raw))"
  by (auto simp: mappedCommunity_def find_None_iff js_includes_sublist)

lemma finalCommunity_first:
  assumes d: "distinct (map fst tbl)" and ne: "[] \<notin> set (map fst tbl)"
    and ex: "\<exists>key \<in> set (map fst tbl). sublist key (toLowerCase raw)"
  shows "\<exists>i<length tbl. sublist (fst (tbl ! i)) (toLowerCase raw)
            \<and> (\<forall>j<i. \<not> sublist (fst (tbl ! j)) (toLowerCase raw))
            \<and> finalCommunity toLowerCase tbl raw = snd (tbl ! i)"
proof -
  from ex have "mappedCommunity toLowerCase tbl raw \<noteq> None"
    by (simp add: mappedCommunity_None)
  then obtain key where k: "mappedCommunity toLowerCase tbl raw = Some key" by blast
  then obtain i where i: "i < length tbl" "sublist (fst (tbl ! i)) (toLowerCase raw)"
    "key = fst (tbl ! i)" "\<forall>j<i. \<not> sublist (fst (tbl ! j)) (toLowerCase raw)"
    by (auto simp: mappedCommunity_Some)
  from i(1) have mem: "tbl ! i \<in> set tbl" by simp
  then have "(key, snd (tbl ! i)) \<in> set tbl" using i(3) by simp
  with d have m: "map_of tbl key = Some (snd (tbl ! i))" by simp
  from mem i(3) ne have "key \<noteq> []" by force
  with k m have "finalCommunity toLowerCase tbl raw = snd (tbl ! i)"
    by (simp add: finalCommunity_def)
  with i show ?thesis by blast
qed

lemma finalCommunity_none:
  assumes "\<forall>key \<in> set (map fst tbl). \<not> sublist key (toLowerCase raw)"
  shows "finalCommunity toLowerCase tbl raw = raw"
proof -
  from assms have "mappedCommunity toLowerCase tbl raw = None" by (simp add: mappedCommunity_None)
  then show ?thesis by (simp add: finalCommunity_def)
qed

lemma communityMappings_keys:
  "distinct (map fst communityMappings)" "[] \<notin> set (map fst communityMappings)"
  "distinct (map fst communityMappings_index)" "[] \<notin> set (map fst communityMappings_index)"
  by (simp_all add: communityMappings_def communityMappings_index_def js_def)

lemmas canon_defs = finalCommunity_def mappedCommunity_def communityMappings_def
  communityMappings_index_def string_defs

lemmas unicode_defs = caseTabled_def js_def toLowerCase_unit_def

lemma finalCommunity_dip:
  assumes u: "unicodeLowerCase toLowerCase"
  shows "finalCommunity toLowerCase communityMappings
           (js ''Dubai Investment Park (DIP) '' @ [8212] @ js '' Phase 2'') = js ''Motor City''"
    and "finalCommunity toLowerCase communityMappings_index
           (js ''Dubai Investment Park (DIP) '' @ [8212] @ js '' Phase 2'') = js ''Motor City''"
  by (simp_all add: unicodeLowerCase_apply [OF u] unicode_defs finalCommunity_def
      mappedCommunity_def communityMappings_def communityMappings_index_def)

lemma finalCommunity_al_barsha:
  assumes u: "unicodeLowerCase toLowerCase"
  shows "finalCommunity toLowerCase communityMappings (js ''Al Barsha Heights'')
           = js ''Barsha Heights''"
    and "finalCommunity toLowerCase communityMappings_index (js ''Al Barsha Heights'')
           = js ''Barsha Heights''"
  by (simp_all add: unicodeLowerCase_apply [OF u] unicode_defs finalCommunity_def
      mappedCommunity_def communityMappings_def communityMappings_index_def)

text \<open>
  C4. For both alias tables and whatever the runtime's lower-casing does: when the
  lower-cased community contains some key of the table, the canonical community is the
  value of the first such key in declaration order; when it contains none, the community
  is returned unchanged. With the Unicode lower-casing, "Dubai Investment Park (DIP) -
  Phase 2" (with an em dash, code unit 8212) gives "Motor City" and "Al Barsha Heights"
  gives "Barsha Heights".
\<close>

theorem finalCommunity_first_alias:
  assumes "mappings = communityMappings \<or> mappings = communityMappings_index"
  shows
  "((\<exists>key \<in> set (map fst mappings). sublist key (toLowerCase raw)) \<longrightarrow>
      (\<exists>i<length mappings. sublist (fst (mappings ! i)) (toLowerCase raw)
            \<and> (\<forall>j<i. \<not> sublist (fst (mappings ! j)) (toLowerCase raw))
            \<and> finalCommunity toLowerCase mappings raw = snd (mappings ! i)))
   \<and> ((\<forall>key \<in> set (map fst mappings). \<not> sublist key (toLowerCase raw)) \<longrightarrow>
        finalCommunity toLowerCase mappings raw = raw)
   \<and> (unicodeLowerCase toLowerCase \<longrightarrow>
        finalCommunity toLowerCase mappings
          (js ''Dubai Investment Park (DIP) '' @ [8212] @ js '' Phase 2'') = js ''Motor City''
        \<and> finalCommunity toLowerCase mappings (js ''Al Barsha Heights'')
            = js ''Barsha Heights'')"
proof -
  from assms have wf: "distinct (map fst mappings)" "[] \<notin> set (map fst mappings)"
    using communityMappings_keys by auto
  have e: "finalCommunity toLowerCase mappings
          (js ''Dubai Investment Park (DIP) '' @ [8212] @ js '' Phase 2'') = js ''Motor City''
        \<and> finalCommunity toLowerCase mappings (js ''Al Barsha Heights'')
            = js ''Barsha Heights''"
    if u: "unicodeLowerCase toLowerCase"
    using assms finalCommunity_dip [OF u] finalCommunity_al_barsha [OF u] by auto
  from finalCommunity_first [OF wf] finalCommunity_none [of mappings toLowerCase raw] e
  show ?thesis by blast
qed

theorem finalCommunity_first_alias_witness:
  "unicodeLowerCase toLowerCase_latin1
   \<and> (\<exists>key \<in> set (map fst communityMappings).
          sublist key (toLowerCase_latin1 (js ''Al Barsha Heights'')))
   \<and> (\<exists>i<length communityMappings.
          sublist (fst (communityMappings ! i)) (toLowerCase_latin1 (js ''Al Barsha Heights''))
          \<and> (\<forall>j<i. \<not> sublist (fst (communityMappings ! j))
                        (toLowerCase_latin1 (js ''Al Barsha Heights'')))
          \<and> finalCommunity toLowerCase_latin1 communityMappings (js ''Al Barsha Heights'')
              = snd (communityMappings ! i))
   \<and> finalCommunity toLowerCase_latin1 communityMappings (js ''Al Barsha Heights'')
        = js ''Barsha Heights''
   \<and> \<not> (\<exists>key \<in> set (map fst communityMappings).
            sublist key (toLowerCase_latin1 (js ''Downtown Dubai'')))
   \<and> finalCommunity toLowerCase_latin1 communityMappings (js ''Downtown Dubai'')
        = js ''Downtown Dubai''"
proof -
  have a: "\<exists>key \<in> set (map fst communityMappings).
             sublist key (toLowerCase_latin1 (js ''Al Barsha Heights''))"
    by (simp add: communityMappings_def string_defs flip: js_includes_sublist)
  have b: "\<forall>key \<in> set (map fst communityMappings).
             \<not> sublist key (toLowerCase_latin1 (js ''Downtown Dubai''))"
    by (simp add: communityMappings_def string_defs flip: js_includes_sublist)
  from a b unicodeLowerCase_latin1
    finalCommunity_first_alias
      [where mappings = communityMappings and toLowerCase = toLowerCase_latin1
         and raw = "js ''Al Barsha Heights''"]
    finalCommunity_first_alias
      [where mappings = communityMappings and toLowerCase = toLowerCase_latin1
         and raw = "js ''Downtown Dubai''"]
  show ?thesis by blast
qed

section \<open>The extraction loops\<close>

lemma map_filter_append: "List.map_filter f (xs @ ys) = List.map_filter f xs @ List.map_filter f ys"
  by (simp add: List.map_filter_def)

lemma processChunk_loop_eq:
  "i \<le> e \<Longrightarrow>
   processChunk_loop toLowerCase now ty els i e props =
     props @ List.map_filter (\<lambda>j. processElement toLowerCase now ty j (els ! j)) [i..<e]"
proof (induction toLowerCase now ty els i e props rule: processChunk_loop.induct)
  case (1 toLowerCase now ty els i e props)
  show ?case
  proof (cases "i < e")
    case True
    then have u: "[i..<e] = i # [i + 1..<e]" by (simp add: upt_rec)
    from True have "i + 1 \<le> e" by simp
    with "1.IH" True have
      "processChunk_loop toLowerCase now ty els (i + 1) e
         (case processElement toLowerCase now ty i (els ! i) of None \<Rightarrow> props | Some p \<Rightarrow> props @ [p]) =
       (case processElement toLowerCase now ty i (els ! i) of None \<Rightarrow> props | Some p \<Rightarrow> props @ [p])
        @ List.map_filter (\<lambda>j. processElement toLowerCase now ty j (els ! j)) [i + 1..<e]"
      by simp
    with True show ?thesis
      by (subst processChunk_loop.simps) (simp add: u List.map_filter_simps split: option.splits)
  next
    case False
    with "1.prems" have "i = e" by simp
    then show ?thesis
      by (subst processChunk_loop.simps) (simp add: List.map_filter_simps)
  qed
qed

lemma chunks_loop_eq:
  "50 dvd i \<Longrightarrow>
   chunks_loop toLowerCase now ty els i props =
     props @ List.map_filter (\<lambda>j. processElement toLowerCase now ty j (els ! j))
               [i..<min (length els) 300]"
proof (induction toLowerCase now ty els i props rule: chunks_loop.induct)
  case (1 toLowerCase now ty els i props)
  let ?f = "\<lambda>j. processElement toLowerCase now ty j (els ! j)"
  let ?m = "min (length els) 300"
  show ?case
  proof (cases "i < ?m")
    case True
    from "1.prems" have d: "50 dvd (i + 50)" by simp
    from "1.prems" True have le: "i + 50 \<le> 300" by (auto elim!: dvdE)
    have chunk: "processChunk toLowerCase now ty els i 50 props =
                   props @ List.map_filter ?f [i..<min (i + 50) (length els)]"
      using True by (simp add: processChunk_def processChunk_loop_eq)
    have split: "[i..<min (i + 50) (length els)] @ [i + 50..<?m] = [i..<?m]"
    proof (cases "i + 50 \<le> length els")
      case True
      with le have "i + 50 \<le> ?m" by simp
      then obtain k where k: "?m = (i + 50) + k"
        using le_Suc_ex by blast
      have "[i..<(i + 50) + k] = [i..<i + 50] @ [i + 50..<(i + 50) + k]"
        by (rule upt_add_eq_append) simp
      with k have "[i..<i + 50] @ [i + 50..<?m] = [i..<?m]"
        by simp
      with True show ?thesis by (simp add: min_def)
    next
      case False
      with le show ?thesis by (simp add: min_def)
    qed
    from "1.IH" [OF True d] have
      "chunks_loop toLowerCase now ty els (i + 50) (processChunk toLowerCase now ty els i 50 props) =
         processChunk toLowerCase now ty els i 50 props @ List.map_filter ?f [i + 50..<?m]" .
    with True chunk split show ?thesis
      by (subst chunks_loop.simps) (simp flip: map_filter_append)
  next
    case False
    then have "?m \<le> i"
      by linarith
    then have e: "[i..<?m] = []"
      unfolding upt_eq_Nil_conv by (rule disjI2)
    from False have "chunks_loop toLowerCase now ty els i props = props"
      by (subst chunks_loop.simps) (simp only: if_False)
    then show ?thesis
      by (simp only: e List.map_filter_simps append_Nil2)
  qed
qed

lemma parseXMLPropertiesOptimized_eq:
  "parseFromString xmlString = Inr xmlDoc \<Longrightarrow> parsererror xmlDoc = None \<Longrightarrow>
   parseXMLPropertiesOptimized toLowerCase parseFromString now xmlString ty =
     List.map_filter (\<lambda>j. processElement toLowerCase now ty j (propertyElements xmlDoc ! j))
       [0..<min (length (propertyElements xmlDoc)) 300]"
  by (simp add: parseXMLPropertiesOptimized_def chunks_loop_eq)

lemma in_parseXMLPropertiesOptimized:
  assumes "p \<in> set (parseXMLPropertiesOptimized toLowerCase parseFromString now xmlString ty)"
  shows "\<exists>xmlDoc j. parseFromString xmlString = Inr xmlDoc \<and> j < length (propertyElements xmlDoc)
           \<and> processElement toLowerCase now ty j (propertyElements xmlDoc ! j) = Some p"
proof (cases "parseFromString xmlString")
  case (Inl e)
  with assms show ?thesis by (simp add: parseXMLPropertiesOptimized_def)
next
  case (Inr d)
  show ?thesis
  proof (cases "parsererror d")
    case None
    from assms show ?thesis
      unfolding parseXMLPropertiesOptimized_eq
          [of parseFromString xmlString d toLowerCase now ty, OF Inr None]
      using Inr by (auto simp: List.map_filter_def)
  next
    case (Some e)
    with Inr assms show ?thesis by (simp add: parseXMLPropertiesOptimized_def)
  qed
qed

lemma in_parseXMLProperties:
  assumes "p \<in> set (parseXMLProperties toLowerCase parseFromString xmlString ty)"
  shows "\<exists>xmlDoc j. parseFromString xmlString = Inr xmlDoc \<and> j < length (propertyElements xmlDoc)
           \<and> parseElement_index toLowerCase ty j (propertyElements xmlDoc ! j) = Some p"
proof (cases "parseFromString xmlString")
  case (Inl e)
  with assms show ?thesis by (simp add: parseXMLProperties_def)
next
  case (Inr d)
  with assms show ?thesis
    by (auto simp: parseXMLProperties_def List.map_filter_def in_set_enumerate_eq split: if_splits)
qed

section \<open>Evaluating the normalizers\<close>

lemmas field_defs = categoryOf_def communityOf_def titleOf_def priceStrOf_def areaStrOf_def
  bedroomsStrOf_def trim_def isWhiteSpace_def

lemmas number_defs = stripNonNumeric_def isDigit_def parseFloat_def decimalValue_def number_or_def
  int_or_def parseInt_def parseMagnitude_def isHexDigit_def hexValue_def hexDigitValue_def
  integralOf_def roundToDouble_def

lemmas gate_defs = isCommercialCategory_def commercialPatterns_def isTargetCommunity_def
  TARGET_COMMUNITIES_def canon_defs

lemmas image_defs = finalImages_def extractedImages_def finalImages_index_def
  extractedImages_index_def imageTexts_def

lemmas element_defs = processElement_def parseElement_index_def field_defs number_defs gate_defs
  image_defs type_name_def

lemma processElement_Some:
  assumes "processElement toLowerCase now ty i element = Some p"
  shows "price p = number_or (parseFloat (stripNonNumeric (priceStrOf ty element))) 0"
    and "price p > 0"
    and "bedrooms p = int_or (parseInt (bedroomsStrOf element)) (Finite 0)"
    and "images p = finalImages element"
    and "community p = finalCommunity toLowerCase communityMappings (communityOf element)"
    and "isTargetCommunity toLowerCase (community p)"
    and "category p = Some (categoryOf element)"
    and "isCommercialCategory toLowerCase (categoryOf element)"
    and "propertyType p = Commercial"
  using assms by (auto simp: processElement_def Let_def split: if_splits)

lemma parseElement_index_Some:
  assumes "parseElement_index toLowerCase ty i element = Some q"
  shows "price q = number_or (parseFloat (stripNonNumeric (priceStrOf ty element))) 0"
    and "price q > 0"
    and "bedrooms q = int_or (parseInt (bedroomsStrOf element)) (Finite 1)"
    and "images q = finalImages_index element"
    and "community q = finalCommunity toLowerCase communityMappings_index (communityOf element)"
    and "isTargetCommunity toLowerCase (community q)"
  using assms by (auto simp: parseElement_index_def Let_def int_or_def split: if_splits option.splits)

section \<open>The price gate\<close>

text \<open>
  C5. A listing element whose derived price is at most 0 yields no Property, in the
  commercial variants and in \<open>src/pages/index.tsx\<close>; the price field "N/A" derives the
  price 0; and every Property in the output of either extractor has a price above 0.
\<close>

theorem nonpositive_price_excluded:
  "(number_or (parseFloat (stripNonNumeric (priceStrOf ty element))) 0 \<le> 0 \<longrightarrow>
      processElement toLowerCase now ty i element = None \<and> parseElement_index toLowerCase ty i element = None)
   \<and> number_or (parseFloat (stripNonNumeric (js ''N/A''))) 0 = 0
   \<and> (\<forall>p \<in> set (parseXMLPropertiesOptimized toLowerCase parseFromString now xmlString ty). price p > 0)
   \<and> (\<forall>q \<in> set (parseXMLProperties toLowerCase parseFromString xmlString ty). price q > 0)"
proof -
  have a: "number_or (parseFloat (stripNonNumeric (priceStrOf ty element))) 0 \<le> 0 \<longrightarrow>
      processElement toLowerCase now ty i element = None \<and> parseElement_index toLowerCase ty i element = None"
  proof (intro impI conjI)
    assume le: "number_or (parseFloat (stripNonNumeric (priceStrOf ty element))) 0 \<le> 0"
    show "processElement toLowerCase now ty i element = None"
    proof (rule ccontr)
      assume "processElement toLowerCase now ty i element \<noteq> None"
      then obtain p where "processElement toLowerCase now ty i element = Some p" by blast
      from processElement_Some(1,2) [OF this] le show False by simp
    qed
    show "parseElement_index toLowerCase ty i element = None"
    proof (rule ccontr)
      assume "parseElement_index toLowerCase ty i element \<noteq> None"
      then obtain q where "parseElement_index toLowerCase ty i element = Some q" by blast
      from parseElement_index_Some(1,2) [OF this] le show False by simp
    qed
  qed
  have b: "number_or (parseFloat (stripNonNumeric (js ''N/A''))) 0 = 0"
    by (simp add: number_defs js_def)
  have c: "\<forall>p \<in> set (parseXMLPropertiesOptimized toLowerCase parseFromString now xmlString ty). price p > 0"
    using in_parseXMLPropertiesOptimized processElement_Some(2) by blast
  have d: "\<forall>q \<in> set (parseXMLProperties toLowerCase parseFromString xmlString ty). price q > 0"
    using in_parseXMLProperties parseElement_index_Some(2) by blast
  from a b c d show ?thesis by blast
qed

lemma feed_parsed: "parseXMLPropertiesOptimized toLowerCase_latin1 (feedOf [naPrice, retailShop]) (\<lambda>i. 0) [] Sale =
   [\<lparr> id' = js ''sale-0-1'', title = js ''Property 2'', price = 500000, area = 900,
         bedrooms = Finite 0, community = js ''Barsha Heights'', images = fallbackImages, type = Sale,
         propertyType = Commercial, category = Some (js ''Retail Shop'') \<rparr>]"
  apply (subst parseXMLPropertiesOptimized_eq
      [where xmlDoc = "\<lparr> parsererror = None, propertyElements = [naPrice, retailShop] \<rparr>"])
    apply (simp add: feedOf_def)
   apply simp
  apply (simp add: naPrice_def retailShop_def element_defs show_nat.simps)
  done

lemma feed_parsed_index: "parseXMLProperties toLowerCase_latin1 (feedOf [naPrice, retailShop]) [] Sale =
   [\<lparr> id' = js ''sale-1'', title = js ''Property 2'', price = 500000, area = 900,
         bedrooms = Finite 1, community = js ''Barsha Heights'', images = fallbackImages, type = Sale \<rparr>]"
  by (simp add: parseXMLProperties_def feedOf_def naPrice_def retailShop_def element_defs show_nat.simps)

theorem nonpositive_price_excluded_witness:
  "number_or (parseFloat (stripNonNumeric (priceStrOf Sale naPrice))) 0 \<le> 0
   \<and> processElement toLowerCase_latin1 (\<lambda>i. 0) Sale 0 naPrice = None
   \<and> parseElement_index toLowerCase_latin1 Sale 0 naPrice = None
   \<and> length (parseXMLPropertiesOptimized toLowerCase_latin1 (feedOf [naPrice, retailShop]) (\<lambda>i. 0) [] Sale) = 1
   \<and> list_all (\<lambda>p. price p > 0)
        (parseXMLPropertiesOptimized toLowerCase_latin1 (feedOf [naPrice, retailShop]) (\<lambda>i. 0) [] Sale)
   \<and> length (parseXMLProperties toLowerCase_latin1 (feedOf [naPrice, retailShop]) [] Sale) = 1
   \<and> list_all (\<lambda>q. price q > 0) (parseXMLProperties toLowerCase_latin1 (feedOf [naPrice, retailShop]) [] Sale)"
proof -
  have h: "number_or (parseFloat (stripNonNumeric (priceStrOf Sale naPrice))) 0 \<le> 0"
    by (simp add: naPrice_def field_defs number_defs js_def)
  have l: "length (parseXMLPropertiesOptimized toLowerCase_latin1 (feedOf [naPrice, retailShop]) (\<lambda>i. 0) [] Sale) = 1"
    "length (parseXMLProperties toLowerCase_latin1 (feedOf [naPrice, retailShop]) [] Sale) = 1"
    by (simp_all add: feed_parsed feed_parsed_index)
  from h l nonpositive_price_excluded
      [where toLowerCase = toLowerCase_latin1 and ty = Sale and element = naPrice
         and now = "\<lambda>i. 0" and i = 0 and parseFromString = "feedOf [naPrice, retailShop]"
         and xmlString = "[]"]
  show ?thesis unfolding list_all_iff by blast
qed

section \<open>Bedrooms\<close>

lemma retailShop_processed:
  "processElement toLowerCase_latin1 (\<lambda>i. 0) Sale 0 retailShop = Some retailShopProperty"
  by (simp add: retailShop_def retailShopProperty_def element_defs show_nat.simps)








text \<open>
  The Number \<open>parseInt\<close> returns is the double nearest to the integer read: a run of 23
  nines is read as 99999999999999991611392.
\<close>

lemma parseInt_rounds:
  "parseInt (js ''99999999999999999999999'') = Some (Finite 99999999999999991611392)"
  by (simp add: number_defs js_def isWhiteSpace_def bitLength.simps)




section \<open>Images\<close>

lemma finalImages_nonempty: "finalImages element \<noteq> []"
  by (auto simp: finalImages_def fallbackImages_def Let_def)

lemma finalImages_index_nonempty: "finalImages_index element \<noteq> []"
  by (auto simp: finalImages_index_def fallbackImages_def Let_def)

text \<open>
  C8. Every constructed Property has at least one image. In the commercial variants the
  list is the 3-element placeholder set when no image URL is extracted and the first 5
  extracted URLs otherwise; in \<open>src/pages/index.tsx\<close> it is the placeholder set or the
  whole extracted list.
\<close>

theorem images_never_empty:
  "(processElement toLowerCase now ty i element = Some p \<longrightarrow>
      images p \<noteq> [] \<and> 1 \<le> length (images p) \<and> length (images p) \<le> 5
      \<and> (extractedImages element = [] \<longrightarrow> images p = fallbackImages)
      \<and> (extractedImages element \<noteq> [] \<longrightarrow> images p = take 5 (extractedImages element)))
   \<and> (parseElement_index toLowerCase ty i element = Some q \<longrightarrow>
      images q \<noteq> [] \<and> 1 \<le> length (images q)
      \<and> (extractedImages_index element = [] \<longrightarrow> images q = fallbackImages)
      \<and> (extractedImages_index element \<noteq> [] \<longrightarrow> images q = extractedImages_index element))
   \<and> length fallbackImages = 3
   \<and> (\<forall>x \<in> set (parseXMLPropertiesOptimized toLowerCase parseFromString now xmlString ty). images x \<noteq> [])
   \<and> (\<forall>y \<in> set (parseXMLProperties toLowerCase parseFromString xmlString ty). images y \<noteq> [])"
proof -
  have f: "length fallbackImages = 3"
    by (simp add: fallbackImages_def)
  have a: "processElement toLowerCase now ty i element = Some p \<longrightarrow>
      images p \<noteq> [] \<and> 1 \<le> length (images p) \<and> length (images p) \<le> 5
      \<and> (extractedImages element = [] \<longrightarrow> images p = fallbackImages)
      \<and> (extractedImages element \<noteq> [] \<longrightarrow> images p = take 5 (extractedImages element))"
  proof
    assume "processElement toLowerCase now ty i element = Some p"
    then have i: "images p = finalImages element"
      by (rule processElement_Some(4))
    have "1 \<le> length (finalImages element)"
      using finalImages_nonempty [of element] by (cases "finalImages element") simp_all
    moreover have "length (finalImages element) \<le> 5"
      by (simp add: finalImages_def Let_def f)
    ultimately show "images p \<noteq> [] \<and> 1 \<le> length (images p) \<and> length (images p) \<le> 5
      \<and> (extractedImages element = [] \<longrightarrow> images p = fallbackImages)
      \<and> (extractedImages element \<noteq> [] \<longrightarrow> images p = take 5 (extractedImages element))"
      using finalImages_nonempty [of element] by (simp add: i) (simp add: finalImages_def)
  qed
  have b: "parseElement_index toLowerCase ty i element = Some q \<longrightarrow>
      images q \<noteq> [] \<and> 1 \<le> length (images q)
      \<and> (extractedImages_index element = [] \<longrightarrow> images q = fallbackImages)
      \<and> (extractedImages_index element \<noteq> [] \<longrightarrow> images q = extractedImages_index element)"
  proof
    assume "parseElement_index toLowerCase ty i element = Some q"
    then have i: "images q = finalImages_index element"
      by (rule parseElement_index_Some(4))
    have "1 \<le> length (finalImages_index element)"
      using finalImages_index_nonempty [of element]
      by (cases "finalImages_index element") simp_all
    then show "images q \<noteq> [] \<and> 1 \<le> length (images q)
      \<and> (extractedImages_index element = [] \<longrightarrow> images q = fallbackImages)
      \<and> (extractedImages_index element \<noteq> [] \<longrightarrow> images q = extractedImages_index element)"
      using finalImages_index_nonempty [of element]
      by (simp add: i) (simp add: finalImages_index_def)
  qed
  have c: "\<forall>x \<in> set (parseXMLPropertiesOptimized toLowerCase parseFromString now xmlString ty). images x \<noteq> []"
    using in_parseXMLPropertiesOptimized processElement_Some(4) finalImages_nonempty
    by metis
  have d: "\<forall>y \<in> set (parseXMLProperties toLowerCase parseFromString xmlString ty). images y \<noteq> []"
    using in_parseXMLProperties parseElement_index_Some(4) finalImages_index_nonempty
    by metis
  from a b f c d show ?thesis by blast
qed

lemma galleryShop_processed:
  "processElement toLowerCase_latin1 (\<lambda>i. 1700000000000) Rent 12 galleryShop = Some galleryShopProperty"
  by (simp add: galleryShop_def galleryShopProperty_def element_defs show_nat.simps)

lemma galleryShop_extracted:
  "extractedImages galleryShop =
     [js ''a.jpg'', js ''b.jpg'', js ''c.jpg'', js ''d.jpg'', js ''e.jpg'', js ''f.jpg'']"
  by (simp add: galleryShop_def image_defs trim_def isWhiteSpace_def js_def)

lemma retailShop_extracted: "extractedImages retailShop = []"
  by (simp add: retailShop_def image_defs)

theorem images_never_empty_witness:
  "processElement toLowerCase_latin1 (\<lambda>i. 1700000000000) Rent 12 galleryShop = Some galleryShopProperty
   \<and> extractedImages galleryShop \<noteq> []
   \<and> images galleryShopProperty = take 5 (extractedImages galleryShop)
   \<and> length (images galleryShopProperty) = 5
   \<and> processElement toLowerCase_latin1 (\<lambda>i. 0) Sale 0 retailShop = Some retailShopProperty
   \<and> extractedImages retailShop = []
   \<and> images retailShopProperty = fallbackImages"
proof -
  have g: "extractedImages galleryShop \<noteq> []"
    by (simp add: galleryShop_extracted)
  have l: "length (images galleryShopProperty) = 5"
    by (simp add: galleryShopProperty_def)
  from g l galleryShop_processed retailShop_processed retailShop_extracted
    images_never_empty
      [where toLowerCase = toLowerCase_latin1 and now = "\<lambda>i. 1700000000000" and ty = Rent
         and i = 12 and element = galleryShop and p = galleryShopProperty]
    images_never_empty
      [where toLowerCase = toLowerCase_latin1 and now = "\<lambda>i. 0" and ty = Sale and i = 0
         and element = retailShop and p = retailShopProperty]
  show ?thesis by blast
qed

section \<open>The target-community gate on the empty community\<close>

text \<open>
  C1. The element \<open>officeWithoutCommunity\<close> has none of the community fields, so the
  extracted and the canonical community are the empty string. Every string contains the
  empty string, so the gate holds for it, and the record is in the output of both
  extractors, with the empty community.
\<close>

theorem empty_community_passes_gate:
  assumes u: "unicodeLowerCase toLowerCase"
  shows "communityOf officeWithoutCommunity = []
   \<and> finalCommunity toLowerCase communityMappings [] = []
   \<and> isTargetCommunity toLowerCase []
   \<and> parseXMLPropertiesOptimized toLowerCase (feedOf [officeWithoutCommunity]) (\<lambda>i. 0) []
        Sale = [communityLess]
   \<and> parseXMLProperties toLowerCase (feedOf [officeWithoutCommunity]) [] Sale
        = [communityLess_index]
   \<and> community communityLess = []"
proof -
  note lower = unicodeLowerCase_apply [OF u] caseTabled_def
  have a: "communityOf officeWithoutCommunity = []"
    by (simp add: officeWithoutCommunity_def communityOf_def)
  have b: "finalCommunity toLowerCase communityMappings [] = []"
    by (simp add: lower canon_defs)
  have c: "isTargetCommunity toLowerCase []"
    by (simp add: lower gate_defs)
  have "parseXMLPropertiesOptimized toLowerCase (feedOf [officeWithoutCommunity]) (\<lambda>i. 0) []
          Sale =
     List.map_filter
       (\<lambda>j. processElement toLowerCase (\<lambda>i. 0) Sale j ([officeWithoutCommunity] ! j))
       [0..<min (length [officeWithoutCommunity]) 300]"
    using parseXMLPropertiesOptimized_eq
      [where parseFromString = "feedOf [officeWithoutCommunity]" and xmlString = "[]"
         and xmlDoc = "\<lparr> parsererror = None, propertyElements = [officeWithoutCommunity] \<rparr>"
         and now = "\<lambda>i. 0" and ty = Sale and toLowerCase = toLowerCase]
    by (simp add: feedOf_def)
  then have d: "parseXMLPropertiesOptimized toLowerCase (feedOf [officeWithoutCommunity])
                  (\<lambda>i. 0) [] Sale = [communityLess]"
    by (simp add: lower officeWithoutCommunity_def communityLess_def element_defs
        show_nat.simps)
  have e: "parseXMLProperties toLowerCase (feedOf [officeWithoutCommunity]) [] Sale
             = [communityLess_index]"
    by (simp add: lower parseXMLProperties_def feedOf_def officeWithoutCommunity_def
        communityLess_index_def element_defs show_nat.simps)
  have f: "community communityLess = []"
    by (simp add: communityLess_def)
  from a b c d e f show ?thesis by blast
qed

theorem empty_community_passes_gate_witness:
  "unicodeLowerCase toLowerCase_latin1
   \<and> communityOf officeWithoutCommunity = []
   \<and> finalCommunity toLowerCase_latin1 communityMappings [] = []
   \<and> isTargetCommunity toLowerCase_latin1 []
   \<and> parseXMLPropertiesOptimized toLowerCase_latin1 (feedOf [officeWithoutCommunity])
        (\<lambda>i. 0) [] Sale = [communityLess]
   \<and> parseXMLProperties toLowerCase_latin1 (feedOf [officeWithoutCommunity]) [] Sale
        = [communityLess_index]
   \<and> community communityLess = []"
  using unicodeLowerCase_latin1 empty_community_passes_gate [OF unicodeLowerCase_latin1]
  by blast

section \<open>The Grouper\<close>

lemma TARGET_COMMUNITIES_distinct: "distinct TARGET_COMMUNITIES"
  by (simp add: TARGET_COMMUNITIES_def js_def)

lemma js_includes_refl: "js_includes s s"
  by (simp add: js_includes_sublist)

lemma whitelist_passes_gate: "c \<in> set TARGET_COMMUNITIES \<Longrightarrow> isTargetCommunity toLowerCase c"
  unfolding isTargetCommunity_def list_ex_iff using js_includes_refl by blast

lemma group_entries:
  "(c, g) \<in> set (propertiesByCommunity fs) \<longleftrightarrow>
     c \<in> set TARGET_COMMUNITIES \<and> g = filter (\<lambda>p. community p = c) fs"
  by (auto simp: propertiesByCommunity_def)

lemma groups_mset:
  "mset (concat (map snd (propertiesByCommunity fs))) =
     mset (filter (\<lambda>p. community p \<in> set TARGET_COMMUNITIES) fs)"
proof (induction fs)
  case Nil
  show ?case by (simp add: propertiesByCommunity_def)
next
  case (Cons p fs)
  then show ?case
    by (simp add: propertiesByCommunity_def TARGET_COMMUNITIES_def js_def)
qed

text \<open>
  Along the whole pipeline of the commercial variants: a record in some group of the
  filtered output of the extractor was built from a listing element whose canonical
  community passed the target-community gate.
\<close>

lemma grouped_records_passed_gate:
  assumes st: "currentProperties st = parseXMLPropertiesOptimized toLowerCase parseFromString now xmlString ty"
    and g: "(c, g) \<in> set (propertiesByCommunity (filteredProperties toLowerCase st))"
    and p: "p \<in> set g"
  shows "\<exists>xmlDoc j. parseFromString xmlString = Inr xmlDoc
           \<and> j < length (propertyElements xmlDoc)
           \<and> processElement toLowerCase now ty j (propertyElements xmlDoc ! j) = Some p
           \<and> isTargetCommunity toLowerCase
                (finalCommunity toLowerCase communityMappings (communityOf (propertyElements xmlDoc ! j)))"
proof -
  from g p have "p \<in> set (filteredProperties toLowerCase st)"
    by (simp add: group_entries)
  with st have "p \<in> set (parseXMLPropertiesOptimized toLowerCase parseFromString now xmlString ty)"
    by (simp add: filteredProperties_def)
  then obtain xmlDoc j where j: "parseFromString xmlString = Inr xmlDoc"
    "j < length (propertyElements xmlDoc)"
    "processElement toLowerCase now ty j (propertyElements xmlDoc ! j) = Some p"
    using in_parseXMLPropertiesOptimized by blast
  from processElement_Some(5,6) [OF j(3)] have
    "isTargetCommunity toLowerCase (finalCommunity toLowerCase communityMappings (communityOf (propertyElements xmlDoc ! j)))"
    by simp
  with j show ?thesis by blast
qed

text \<open>
  C6. For every filtered collection the Grouper has exactly one entry per whitelist
  community, in whitelist order, holding the members with that community in their
  original order (the empty list when there is none); the groups of different communities
  are disjoint; together they hold exactly the members whose community is a whitelist
  name, each as often as the filtered collection does; and a record whose community fails
  the target-community gate is in no group.
\<close>

theorem propertiesByCommunity_partition:
  "map fst (propertiesByCommunity fs) = TARGET_COMMUNITIES
   \<and> distinct TARGET_COMMUNITIES
   \<and> length (propertiesByCommunity fs) = 3
   \<and> (\<forall>c \<in> set TARGET_COMMUNITIES.
        map_of (propertiesByCommunity fs) c = Some (filter (\<lambda>p. community p = c) fs))
   \<and> (\<forall>c g. (c, g) \<in> set (propertiesByCommunity fs) \<longrightarrow> subseq g fs)
   \<and> (\<forall>c1 g1 c2 g2. (c1, g1) \<in> set (propertiesByCommunity fs)
        \<and> (c2, g2) \<in> set (propertiesByCommunity fs) \<and> c1 \<noteq> c2 \<longrightarrow> set g1 \<inter> set g2 = {})
   \<and> (\<Union>(c, g) \<in> set (propertiesByCommunity fs). set g)
        = {p \<in> set fs. community p \<in> set TARGET_COMMUNITIES}
   \<and> mset (concat (map snd (propertiesByCommunity fs)))
        = mset (filter (\<lambda>p. community p \<in> set TARGET_COMMUNITIES) fs)
   \<and> (\<forall>c g p. (c, g) \<in> set (propertiesByCommunity fs) \<and> \<not> isTargetCommunity toLowerCase (community p)
        \<longrightarrow> p \<notin> set g)"
proof -
  have k: "map fst (propertiesByCommunity fs) = TARGET_COMMUNITIES"
    by (simp add: propertiesByCommunity_def comp_def)
  have n: "length (propertiesByCommunity fs) = 3"
    by (simp add: propertiesByCommunity_def TARGET_COMMUNITIES_def)
  have m: "\<forall>c \<in> set TARGET_COMMUNITIES.
        map_of (propertiesByCommunity fs) c = Some (filter (\<lambda>p. community p = c) fs)"
  proof
    fix c assume "c \<in> set TARGET_COMMUNITIES"
    then have "(c, filter (\<lambda>p. community p = c) fs) \<in> set (propertiesByCommunity fs)"
      by (simp add: group_entries)
    moreover have "distinct (map fst (propertiesByCommunity fs))"
      by (simp only: k TARGET_COMMUNITIES_distinct)
    ultimately show "map_of (propertiesByCommunity fs) c = Some (filter (\<lambda>p. community p = c) fs)"
      by simp
  qed
  have s: "\<forall>c g. (c, g) \<in> set (propertiesByCommunity fs) \<longrightarrow> subseq g fs"
    by (simp add: group_entries)
  have d: "\<forall>c1 g1 c2 g2. (c1, g1) \<in> set (propertiesByCommunity fs)
        \<and> (c2, g2) \<in> set (propertiesByCommunity fs) \<and> c1 \<noteq> c2 \<longrightarrow> set g1 \<inter> set g2 = {}"
    by (auto simp: group_entries)
  have u: "(\<Union>(c, g) \<in> set (propertiesByCommunity fs). set g)
        = {p \<in> set fs. community p \<in> set TARGET_COMMUNITIES}"
    by (auto simp: propertiesByCommunity_def)
  have g: "\<forall>c g p. (c, g) \<in> set (propertiesByCommunity fs) \<and> \<not> isTargetCommunity toLowerCase (community p)
        \<longrightarrow> p \<notin> set g"
    using whitelist_passes_gate by (auto simp: group_entries)
  show ?thesis
    by (intro conjI k TARGET_COMMUNITIES_distinct n m s d u groups_mset g)
qed

theorem propertiesByCommunity_partition_witness:
  "js ''Barsha Heights'' \<in> set TARGET_COMMUNITIES
   \<and> map_of (propertiesByCommunity [uncategorized, galleryShopProperty, largeOffice, communityLess])
        (js ''Barsha Heights'') = Some []
   \<and> js ''Business Bay'' \<in> set TARGET_COMMUNITIES
   \<and> map_of (propertiesByCommunity [uncategorized, galleryShopProperty, largeOffice, communityLess])
        (js ''Business Bay'') = Some [uncategorized, largeOffice]
   \<and> \<not> isTargetCommunity toLowerCase_latin1 (js ''Downtown Dubai'')"
proof -
  have a: "js ''Barsha Heights'' \<in> set TARGET_COMMUNITIES"
    "js ''Business Bay'' \<in> set TARGET_COMMUNITIES"
    by (simp_all add: TARGET_COMMUNITIES_def)
  have b: "\<not> isTargetCommunity toLowerCase_latin1 (js ''Downtown Dubai'')"
    by (simp add: gate_defs)
  have c: "filter (\<lambda>p. community p = js ''Barsha Heights'')
             [uncategorized, galleryShopProperty, largeOffice, communityLess] = []"
    "filter (\<lambda>p. community p = js ''Business Bay'')
             [uncategorized, galleryShopProperty, largeOffice, communityLess]
       = [uncategorized, largeOffice]"
    by (simp_all add: uncategorized_def galleryShopProperty_def largeOffice_def communityLess_def
        js_def)
  note t = propertiesByCommunity_partition
      [where fs = "[uncategorized, galleryShopProperty, largeOffice, communityLess]"
         and toLowerCase = toLowerCase_latin1]
  have "\<forall>c \<in> set TARGET_COMMUNITIES.
          map_of (propertiesByCommunity [uncategorized, galleryShopProperty, largeOffice, communityLess]) c
            = Some (filter (\<lambda>p. community p = c)
                 [uncategorized, galleryShopProperty, largeOffice, communityLess])"
    by (rule t [THEN conjunct2, THEN conjunct2, THEN conjunct2, THEN conjunct1])
  with a b c show ?thesis
    by simp
qed

end
